theory Spec2Isabelle
  imports Main "HOL-Library.AList" "HOL-Library.Sublist"
begin

section \<open>Python values, options bags, tables and exceptions\<close>

text \<open>
  The module \<^verbatim>\<open>data_handling/data_io.py\<close> passes an open-ended \<^verbatim>\<open>**kwargs\<close> dictionary
  through to its strategies. The values it inspects itself are tested for truth
  (\<^verbatim>\<open>if not query\<close>) and rendered into messages (\<^verbatim>\<open>f"... {query}"\<close>). A value is
  therefore modelled by the Python types that have a literal meaning here, and any other
  object is abstracted by its truth value and its \<^verbatim>\<open>str()\<close> rendering.
\<close>

datatype pyval =
    PNone
  | PBool bool
  | PInt int
  | PStr string
  | PObject bool string

fun truthy :: "pyval \<Rightarrow> bool" where
  "truthy PNone = False"
| "truthy (PBool b) = b"
| "truthy (PInt i) = (i \<noteq> 0)"
| "truthy (PStr s) = (s \<noteq> [])"
| "truthy (PObject t r) = t"

fun digits :: "nat \<Rightarrow> string" where
  "digits n = (if n < 10 then [''0123456789'' ! n]
               else digits (n div 10) @ [''0123456789'' ! (n mod 10)])"

declare digits.simps [simp del]

fun py_str :: "pyval \<Rightarrow> string" where
  "py_str PNone = ''None''"
| "py_str (PBool b) = (if b then ''True'' else ''False'')"
| "py_str (PInt i) = (if i < 0 then ''-'' @ digits (nat (- i)) else digits (nat i))"
| "py_str (PStr s) = s"
| "py_str (PObject t r) = r"

text \<open>\<^verbatim>\<open>'{x}'\<close> inside an f-string: the text of \<open>x\<close> between two apostrophes.\<close>

definition quoted :: "string \<Rightarrow> string" where
  "quoted x = [CHR 0x27] @ x @ [CHR 0x27]"

text \<open>
  A keyword dictionary keeps its insertion order and has one entry for each key; it is an
  association list read with \<^const>\<open>map_of\<close>.
\<close>

type_synonym kwargs = "(string \<times> pyval) list"

text \<open>\<^verbatim>\<open>kwargs.get(key)\<close> and \<^verbatim>\<open>kwargs.get(key, default)\<close>.\<close>

definition kwargs_get :: "kwargs \<Rightarrow> string \<Rightarrow> pyval \<Rightarrow> pyval" where
  "kwargs_get kw key dflt = (case map_of kw key of None \<Rightarrow> dflt | Some v \<Rightarrow> v)"

text \<open>\<^verbatim>\<open>kwargs.pop(key, default)\<close>: the value and the dictionary without the key.\<close>

definition kwargs_pop :: "kwargs \<Rightarrow> string \<Rightarrow> pyval \<Rightarrow> pyval \<times> kwargs" where
  "kwargs_pop kw key dflt = (kwargs_get kw key dflt, AList.delete key kw)"

text \<open>
  A table is the value \<^verbatim>\<open>pd.DataFrame({...})\<close> builds from a dictionary of columns: the
  column names in order, each with its cells.
\<close>

datatype table = DataFrame "(string \<times> pyval list) list"

text \<open>
  The exceptions the module raises or catches itself, each with the text \<^verbatim>\<open>str()\<close> gives
  for it, and any other exception an external call raises, by class name and text.
\<close>

datatype exc =
    ValueError string
  | KeyError string
  | FileNotFoundError string
  | OSError string
  | LibraryError string string

fun exc_str :: "exc \<Rightarrow> string" where
  "exc_str (ValueError m) = m"
| "exc_str (KeyError m) = m"
| "exc_str (FileNotFoundError m) = m"
| "exc_str (OSError m) = m"
| "exc_str (LibraryError c m) = m"

section \<open>Program state\<close>

text \<open>
  The strategy classes: the four the module defines and any class a caller registers
  later, named by its class name.
\<close>

datatype reader_cls = SqlReader | CsvReader | UserReader string

datatype writer_cls = SqlWriter | CsvWriter | UserWriter string

text \<open>
  Calling a class allocates an object. The strategy classes declare no fields, so an
  object is its identity and its class.
\<close>

datatype 'c object = Object (obj_id: nat) (obj_cls: 'c)

text \<open>
  The calls that reach outside the process, in the order they are made. \<open>ReadSql\<close> is
  \<^verbatim>\<open>pd.read_sql(query, source)\<close>, the call that connects to a database and runs a query.
\<close>

datatype ext_call =
    Makedirs string bool
  | ToCsv table string pyval kwargs
  | ReadCsv string kwargs
  | ReadSql pyval string

text \<open>
  The state a call can observe or change: the two class-level dictionaries of
  \<^verbatim>\<open>_IOFactory\<close>, the number of objects allocated so far (object identities \<open>0\<close> up to
  \<open>allocated - 1\<close> are in use), the lines printed, the external calls made, and the file
  system.
\<close>

record 'fs state =
  readers :: "(string \<times> reader_cls) list"
  writers :: "(string \<times> writer_cls) list"
  allocated :: nat
  stdout :: "string list"
  calls :: "ext_call list"
  fs :: 'fs

text \<open>
  What the module calls and does not define: \<^verbatim>\<open>os.path.exists\<close>, \<^verbatim>\<open>os.path.dirname\<close>,
  \<^verbatim>\<open>os.makedirs(name, exist_ok=...)\<close>, \<^verbatim>\<open>df.to_csv(target, index=..., **kwargs)\<close>,
  \<^verbatim>\<open>pd.read_csv(source, **kwargs)\<close>, and, of the classes callers register, by class name,
  the \<^verbatim>\<open>read\<close> and \<^verbatim>\<open>write\<close> methods and the constructors (called without arguments, they
  yield the identity of an object). A call that can fail returns the exception it raises.
\<close>

record 'fs env =
  os_path_exists :: "string \<Rightarrow> 'fs \<Rightarrow> bool"
  os_path_dirname :: "string \<Rightarrow> string"
  os_makedirs :: "string \<Rightarrow> bool \<Rightarrow> 'fs \<Rightarrow> exc option \<times> 'fs"
  to_csv :: "table \<Rightarrow> string \<Rightarrow> pyval \<Rightarrow> kwargs \<Rightarrow> 'fs \<Rightarrow> exc option \<times> 'fs"
  read_csv :: "string \<Rightarrow> kwargs \<Rightarrow> 'fs \<Rightarrow> (exc + table) \<times> 'fs"
  user_read :: "string \<Rightarrow> string \<Rightarrow> kwargs \<Rightarrow> 'fs state \<Rightarrow> (exc + table) \<times> 'fs state"
  user_write ::
    "string \<Rightarrow> table \<Rightarrow> string \<Rightarrow> kwargs \<Rightarrow> 'fs state \<Rightarrow> (exc + unit) \<times> 'fs state"
  user_new_reader :: "string \<Rightarrow> 'fs state \<Rightarrow> (exc + nat) \<times> 'fs state"
  user_new_writer :: "string \<Rightarrow> 'fs state \<Rightarrow> (exc + nat) \<times> 'fs state"

definition py_print :: "string \<Rightarrow> 'fs state \<Rightarrow> 'fs state" where
  "py_print msg s = s\<lparr>stdout := stdout s @ [msg]\<rparr>"

section \<open>The registry: \<^verbatim>\<open>_IOFactory\<close>\<close>

text \<open>
  \<^verbatim>\<open>register_reader(format_type)\<close> returns the decorator \<^verbatim>\<open>wrapper\<close>; applied to a class
  it stores the class under the tag (\<^verbatim>\<open>cls._readers[format_type] = wrapped_class\<close>) and
  returns the class.
\<close>

definition register_reader ::
  "string \<Rightarrow> reader_cls \<Rightarrow> 'fs state \<Rightarrow> reader_cls \<times> 'fs state" where
  "register_reader format_type wrapped_class s =
     (wrapped_class, s\<lparr>readers := AList.update format_type wrapped_class (readers s)\<rparr>)"

definition register_writer ::
  "string \<Rightarrow> writer_cls \<Rightarrow> 'fs state \<Rightarrow> writer_cls \<times> 'fs state" where
  "register_writer format_type wrapped_class s =
     (wrapped_class, s\<lparr>writers := AList.update format_type wrapped_class (writers s)\<rparr>)"

text \<open>
  Calling a class. The four classes of the module define neither \<^verbatim>\<open>__new__\<close> nor
  \<^verbatim>\<open>__init__\<close>: calling one allocates a new object and cannot raise. What calling a
  caller's class does is the caller's code: it may raise, and it yields whatever object
  its constructor hands back, new or not.
\<close>

definition allocate :: "'c \<Rightarrow> 'fs state \<Rightarrow> (exc + 'c object) \<times> 'fs state" where
  "allocate c s = (Inr (Object (allocated s) c), s\<lparr>allocated := Suc (allocated s)\<rparr>)"

fun construct_reader ::
  "'fs env \<Rightarrow> reader_cls \<Rightarrow> 'fs state \<Rightarrow> (exc + reader_cls object) \<times> 'fs state" where
  "construct_reader E SqlReader s = allocate SqlReader s"
| "construct_reader E CsvReader s = allocate CsvReader s"
| "construct_reader E (UserReader n) s =
     (case user_new_reader E n s of
        (Inl e, s1) \<Rightarrow> (Inl e, s1)
      | (Inr i, s1) \<Rightarrow> (Inr (Object i (UserReader n)), s1))"

fun construct_writer ::
  "'fs env \<Rightarrow> writer_cls \<Rightarrow> 'fs state \<Rightarrow> (exc + writer_cls object) \<times> 'fs state" where
  "construct_writer E SqlWriter s = allocate SqlWriter s"
| "construct_writer E CsvWriter s = allocate CsvWriter s"
| "construct_writer E (UserWriter n) s =
     (case user_new_writer E n s of
        (Inl e, s1) \<Rightarrow> (Inl e, s1)
      | (Inr i, s1) \<Rightarrow> (Inr (Object i (UserWriter n)), s1))"

text \<open>
  \<^verbatim>\<open>except KeyError as e: raise ValueError(msg) from e\<close>: a \<^verbatim>\<open>KeyError\<close> becomes the
  \<^verbatim>\<open>ValueError\<close>, any other exception passes.
\<close>

fun except_KeyError :: "string \<Rightarrow> exc \<Rightarrow> exc" where
  "except_KeyError msg (KeyError m) = ValueError msg"
| "except_KeyError msg (ValueError m) = ValueError m"
| "except_KeyError msg (FileNotFoundError m) = FileNotFoundError m"
| "except_KeyError msg (OSError m) = OSError m"
| "except_KeyError msg (LibraryError c m) = LibraryError c m"

text \<open>
  \<^verbatim>\<open>get_reader\<close>: the body of the \<^verbatim>\<open>try\<close> is \<^verbatim>\<open>cls._readers[format_type]()\<close>, the lookup
  and the call of the class. A missing key is raised again as a \<^verbatim>\<open>ValueError\<close> that
  quotes the tag, and so is a \<^verbatim>\<open>KeyError\<close> that the constructor raises.
\<close>

definition get_reader ::
  "'fs env \<Rightarrow> string \<Rightarrow> 'fs state \<Rightarrow> (exc + reader_cls object) \<times> 'fs state" where
  "get_reader E format_type s =
     (case map_of (readers s) format_type of
        None \<Rightarrow> (Inl (ValueError (''No reader registered for format: '' @ quoted format_type)), s)
      | Some c \<Rightarrow>
          (case construct_reader E c s of
             (Inl e, s1) \<Rightarrow>
               (Inl (except_KeyError (''No reader registered for format: '' @ quoted format_type) e), s1)
           | (Inr obj, s1) \<Rightarrow> (Inr obj, s1)))"

definition get_writer ::
  "'fs env \<Rightarrow> string \<Rightarrow> 'fs state \<Rightarrow> (exc + writer_cls object) \<times> 'fs state" where
  "get_writer E format_type s =
     (case map_of (writers s) format_type of
        None \<Rightarrow> (Inl (ValueError (''No writer registered for format: '' @ quoted format_type)), s)
      | Some c \<Rightarrow>
          (case construct_writer E c s of
             (Inl e, s1) \<Rightarrow>
               (Inl (except_KeyError (''No writer registered for format: '' @ quoted format_type) e), s1)
           | (Inr obj, s1) \<Rightarrow> (Inr obj, s1)))"

section \<open>The strategies\<close>

text \<open>The table \<^verbatim>\<open>_SqlReader.read\<close> builds: \<^verbatim>\<open>{"id": [1, 2], "name": ["Alice", "Bob"]}\<close>.\<close>

definition demo_frame :: table where
  "demo_frame = DataFrame [(''id'', [PInt 1, PInt 2]), (''name'', [PStr ''Alice'', PStr ''Bob''])]"

definition SqlReader_read ::
  "string \<Rightarrow> kwargs \<Rightarrow> 'fs state \<Rightarrow> (exc + table) \<times> 'fs state" where
  "SqlReader_read source kw s =
     (let query = kwargs_get kw ''query'' PNone in
      if \<not> truthy query then (Inl (ValueError ''SQL read requires a 'query' argument.''), s)
      else (Inr demo_frame,
            py_print (''Reading from SQL DB at '' @ quoted source @ '' with query: '' @ py_str query) s))"

definition SqlWriter_write ::
  "table \<Rightarrow> string \<Rightarrow> kwargs \<Rightarrow> 'fs state \<Rightarrow> (exc + unit) \<times> 'fs state" where
  "SqlWriter_write df target kw s =
     (let if_exists = kwargs_get kw ''if_exists'' (PStr ''fail'') in
      (Inr (),
       py_print (''Writing to SQL table '' @ quoted target @ '' (if_exists='' @ py_str if_exists @ '')...'') s))"

definition CsvReader_read ::
  "'fs env \<Rightarrow> string \<Rightarrow> kwargs \<Rightarrow> 'fs state \<Rightarrow> (exc + table) \<times> 'fs state" where
  "CsvReader_read E source kw s =
     (if \<not> os_path_exists E source (fs s)
      then (Inl (FileNotFoundError (''The file '' @ quoted source @ '' does not exist.'')), s)
      else
        (let s1 = py_print (''Reading CSV from '' @ quoted source @ ''...'') s;
             (r, fs') = read_csv E source kw (fs s1);
             s2 = s1\<lparr>calls := calls s1 @ [ReadCsv source kw], fs := fs'\<rparr>
         in case r of
              Inl e \<Rightarrow>
                (Inl (OSError (''Failed to read CSV from '' @ quoted source @ '': '' @ exc_str e)), s2)
            | Inr df \<Rightarrow> (Inr df, s2)))"

text \<open>
  The first statement of \<^verbatim>\<open>_CsvWriter.write\<close>: create the parent directory when the target
  names one and it does not exist. It is outside the \<^verbatim>\<open>try\<close>, so what \<^verbatim>\<open>os.makedirs\<close>
  raises leaves the method as it is.
\<close>

definition ensure_directory ::
  "'fs env \<Rightarrow> string \<Rightarrow> 'fs state \<Rightarrow> exc option \<times> 'fs state" where
  "ensure_directory E target s =
     (let directory = os_path_dirname E target in
      if directory \<noteq> [] \<and> \<not> os_path_exists E directory (fs s)
      then
        (let s1 = py_print (''Creating directory: '' @ directory) s;
             (r, fs') = os_makedirs E directory True (fs s1)
         in (r, s1\<lparr>calls := calls s1 @ [Makedirs directory True], fs := fs'\<rparr>))
      else (None, s))"

definition CsvWriter_write ::
  "'fs env \<Rightarrow> table \<Rightarrow> string \<Rightarrow> kwargs \<Rightarrow> 'fs state \<Rightarrow> (exc + unit) \<times> 'fs state" where
  "CsvWriter_write E df target kw s =
     (case ensure_directory E target s of
        (Some e, s1) \<Rightarrow> (Inl e, s1)
      | (None, s1) \<Rightarrow>
          (let (index, kw') = kwargs_pop kw ''index'' (PBool False);
               s2 = py_print (''Writing CSV to '' @ quoted target @ ''...'') s1;
               (r, fs') = to_csv E df target index kw' (fs s2);
               s3 = s2\<lparr>calls := calls s2 @ [ToCsv df target index kw'], fs := fs'\<rparr>
           in case r of
                Some e \<Rightarrow>
                  (Inl (OSError (''Failed to write CSV to '' @ quoted target @ '': '' @ exc_str e)), s3)
              | None \<Rightarrow> (Inr (), s3)))"

section \<open>The facade: \<^verbatim>\<open>load_data\<close> and \<^verbatim>\<open>save_data\<close>\<close>

text \<open>Method dispatch on the class of the instance.\<close>

fun reader_read ::
  "'fs env \<Rightarrow> reader_cls \<Rightarrow> string \<Rightarrow> kwargs \<Rightarrow> 'fs state \<Rightarrow> (exc + table) \<times> 'fs state" where
  "reader_read E SqlReader = SqlReader_read"
| "reader_read E CsvReader = CsvReader_read E"
| "reader_read E (UserReader n) = user_read E n"

fun writer_write ::
  "'fs env \<Rightarrow> writer_cls \<Rightarrow> table \<Rightarrow> string \<Rightarrow> kwargs \<Rightarrow> 'fs state \<Rightarrow> (exc + unit) \<times> 'fs state" where
  "writer_write E SqlWriter = SqlWriter_write"
| "writer_write E CsvWriter = CsvWriter_write E"
| "writer_write E (UserWriter n) = user_write E n"

definition load_data ::
  "'fs env \<Rightarrow> string \<Rightarrow> string \<Rightarrow> kwargs \<Rightarrow> 'fs state \<Rightarrow> (exc + table) \<times> 'fs state" where
  "load_data E source fmt kw s =
     (case get_reader E fmt s of
        (Inl e, s1) \<Rightarrow> (Inl e, s1)
      | (Inr r, s1) \<Rightarrow> reader_read E (obj_cls r) source kw s1)"

definition save_data ::
  "'fs env \<Rightarrow> table \<Rightarrow> string \<Rightarrow> string \<Rightarrow> kwargs \<Rightarrow> 'fs state \<Rightarrow> (exc + unit) \<times> 'fs state" where
  "save_data E df target fmt kw s =
     (case get_writer E fmt s of
        (Inl e, s1) \<Rightarrow> (Inl e, s1)
      | (Inr w, s1) \<Rightarrow> writer_write E (obj_cls w) df target kw s1)"

text \<open>
  The state once the module is imported: the four decorators have run, in source order, on
  empty dictionaries.
\<close>

definition empty_state :: "'fs \<Rightarrow> 'fs state" where
  "empty_state f = \<lparr>readers = [], writers = [], allocated = 0, stdout = [], calls = [], fs = f\<rparr>"

definition module_state :: "'fs \<Rightarrow> 'fs state" where
  "module_state f =
     snd (register_writer ''csv'' CsvWriter
       (snd (register_reader ''csv'' CsvReader
         (snd (register_writer ''sql'' SqlWriter
           (snd (register_reader ''sql'' SqlReader (empty_state f))))))))"


section \<open>A reference environment\<close>

text \<open>
  A small POSIX-like file system to run the module in: the directories that exist and the
  regular files, each with the table its text parses to. Paths are compared as written.
  It stands for the operating system and the table library where a concrete run is needed;
  the theorems below hold for every environment.
\<close>

record posix_fs =
  dirs :: "string list"
  files :: "(string \<times> table) list"

definition slashes :: "string \<Rightarrow> bool" where
  "slashes p = list_all (\<lambda>c. c = CHR ''/'') p"

text \<open>
  \<^verbatim>\<open>posixpath.dirname\<close>: the text up to the last slash, without trailing slashes unless it
  is slashes only.
\<close>

definition posix_dirname :: "string \<Rightarrow> string" where
  "posix_dirname p =
     (let head = rev (dropWhile (\<lambda>c. c \<noteq> CHR ''/'') (rev p)) in
      if head \<noteq> [] \<and> \<not> slashes head then rev (dropWhile (\<lambda>c. c = CHR ''/'') (rev head))
      else head)"

definition is_file :: "posix_fs \<Rightarrow> string \<Rightarrow> bool" where
  "is_file f p = (map_of (files f) p \<noteq> None)"

definition is_dir :: "posix_fs \<Rightarrow> string \<Rightarrow> bool" where
  "is_dir f p = (p \<in> set (dirs f) \<or> (p \<noteq> [] \<and> slashes p))"

definition posix_exists :: "string \<Rightarrow> posix_fs \<Rightarrow> bool" where
  "posix_exists p f = (is_dir f p \<or> is_file f p)"

text \<open>The path and the directories above it, outermost first.\<close>

fun chain :: "nat \<Rightarrow> string \<Rightarrow> string list" where
  "chain 0 d = []"
| "chain (Suc n) d = (if d = [] \<or> slashes d then [] else chain n (posix_dirname d) @ [d])"

text \<open>
  \<^verbatim>\<open>os.makedirs(name, exist_ok=...)\<close>: creates the directory and those above it; fails where
  the name is a regular file, where a regular file stands above it, and, without
  \<^verbatim>\<open>exist_ok\<close>, where the directory exists.
\<close>

definition posix_makedirs :: "string \<Rightarrow> bool \<Rightarrow> posix_fs \<Rightarrow> exc option \<times> posix_fs" where
  "posix_makedirs name exist_ok f =
     (let ps = chain (length name) name in
      if is_file f name
      then (Some (LibraryError ''FileExistsError'' (''[Errno 17] File exists: '' @ quoted name)), f)
      else
        (case find (\<lambda>p. is_file f (posix_dirname p)) ps of
           Some p \<Rightarrow>
             (Some (LibraryError ''NotADirectoryError'' (''[Errno 20] Not a directory: '' @ quoted p)), f)
         | None \<Rightarrow>
             if is_dir f name \<and> \<not> exist_ok
             then (Some (LibraryError ''FileExistsError'' (''[Errno 17] File exists: '' @ quoted name)), f)
             else (None, f\<lparr>dirs := dirs f @ filter (\<lambda>p. \<not> is_dir f p) ps\<rparr>)))"

text \<open>With a true \<^verbatim>\<open>index\<close> the export writes the row positions as a first, unnamed column.\<close>

fun with_index :: "table \<Rightarrow> table" where
  "with_index (DataFrame cols) =
     DataFrame ((''Unnamed: 0'', map (\<lambda>i. PInt (int i)) [0..<(case cols of [] \<Rightarrow> 0 | c # _ \<Rightarrow> length (snd c))])
                # cols)"

definition posix_to_csv ::
  "table \<Rightarrow> string \<Rightarrow> pyval \<Rightarrow> kwargs \<Rightarrow> posix_fs \<Rightarrow> exc option \<times> posix_fs" where
  "posix_to_csv df target index kw f =
     (if target = []
      then (Some (FileNotFoundError (''[Errno 2] No such file or directory: '' @ quoted target)), f)
      else if is_dir f target
      then (Some (LibraryError ''IsADirectoryError'' (''[Errno 21] Is a directory: '' @ quoted target)), f)
      else if posix_dirname target \<noteq> [] \<and> \<not> is_dir f (posix_dirname target)
      then (Some (OSError (''Cannot save file into a non-existent directory: ''
                            @ quoted (posix_dirname target))), f)
      else (None, f\<lparr>files := AList.update target (if truthy index then with_index df else df) (files f)\<rparr>))"

text \<open>
  What \<^verbatim>\<open>pd.read_csv\<close> makes of the text: a column whose cells are all decimal digits is
  read as integers, also where the table written held them as text.
\<close>

definition digit_text :: "pyval \<Rightarrow> bool" where
  "digit_text v = (case v of PStr t \<Rightarrow> t \<noteq> [] \<and> list_all (\<lambda>c. c \<in> set ''0123456789'') t | _ \<Rightarrow> False)"

fun as_int :: "pyval \<Rightarrow> pyval" where
  "as_int (PStr t) = PInt (int (foldl (\<lambda>n c. 10 * n + (of_char c - 48)) 0 t))"
| "as_int PNone = PNone"
| "as_int (PBool b) = PBool b"
| "as_int (PInt i) = PInt i"
| "as_int (PObject b r) = PObject b r"

definition infer_column :: "string \<times> pyval list \<Rightarrow> string \<times> pyval list" where
  "infer_column col =
     (fst col, if snd col \<noteq> [] \<and> list_all digit_text (snd col) then map as_int (snd col) else snd col)"

fun infer_types :: "table \<Rightarrow> table" where
  "infer_types (DataFrame cols) = DataFrame (map infer_column cols)"

definition posix_read_csv :: "string \<Rightarrow> kwargs \<Rightarrow> posix_fs \<Rightarrow> (exc + table) \<times> posix_fs" where
  "posix_read_csv source kw f =
     (if is_dir f source
      then (Inl (LibraryError ''IsADirectoryError'' (''[Errno 21] Is a directory: '' @ quoted source)), f)
      else
        (case map_of (files f) source of
           None \<Rightarrow> (Inl (FileNotFoundError (''[Errno 2] No such file or directory: '' @ quoted source)), f)
         | Some t \<Rightarrow> (Inr (infer_types t), f)))"

text \<open>
  The classes a caller registers. Their methods behave as the two of the test suite do: the
  reader returns the one-cell table \<^verbatim>\<open>{"source": [source]}\<close>, the writer does nothing.
  Calling the class allocates a new object, but for two: \<open>NeedsArg\<close>, whose \<^verbatim>\<open>__init__\<close>
  has a required parameter, so that the call without arguments raises \<^verbatim>\<open>TypeError\<close>; and
  \<open>Shared\<close>, whose \<^verbatim>\<open>__new__\<close> hands back the one instance made when the class was defined,
  object \<open>0\<close>.
\<close>

definition posix_new :: "string \<Rightarrow> posix_fs state \<Rightarrow> (exc + nat) \<times> posix_fs state" where
  "posix_new n s =
     (if n = ''NeedsArg''
      then (Inl (LibraryError ''TypeError''
                   ''NeedsArg.__init__() missing 1 required positional argument''), s)
      else if n = ''Shared'' then (Inr 0, s)
      else (Inr (allocated s), s\<lparr>allocated := Suc (allocated s)\<rparr>))"

definition posix_env :: "posix_fs env" where
  "posix_env =
     \<lparr>os_path_exists = posix_exists,
      os_path_dirname = posix_dirname,
      os_makedirs = posix_makedirs,
      to_csv = posix_to_csv,
      read_csv = posix_read_csv,
      user_read = (\<lambda>n source kw s. (Inr (DataFrame [(''source'', [PStr source])]), s)),
      user_write = (\<lambda>n df target kw s. (Inr (), s)),
      user_new_reader = posix_new,
      user_new_writer = posix_new\<rparr>"

text \<open>The table of the test suite's fixture, with the scores as text.\<close>

definition sample_df :: table where
  "sample_df =
     DataFrame [(''id'', [PInt 1, PInt 2, PInt 3]),
                (''name'', [PStr ''Alice'', PStr ''Bob'', PStr ''Charlie'']),
                (''score'', [PObject True ''85.5'', PObject True ''90.0'', PObject True ''92.5''])]"

text \<open>A file system with nothing in it, and one with a directory \<open>out\<close> and a regular file \<open>a\<close>.\<close>

definition empty_fs :: posix_fs where
  "empty_fs = \<lparr>dirs = [], files = []\<rparr>"

definition busy_fs :: posix_fs where
  "busy_fs = \<lparr>dirs = [''out''], files = [(''a'', sample_df)]\<rparr>"


text \<open>
  The state of a process in which the class \<open>Shared\<close> has been defined: its instance is
  object \<open>0\<close>.
\<close>

definition shared_state :: "posix_fs state" where
  "shared_state = (module_state busy_fs)\<lparr>allocated := 1\<rparr>"

section \<open>A lossless export\<close>


section \<open>Observing one run\<close>

text \<open>The external calls made between two states, and the exports among them.\<close>

definition calls_during :: "'fs state \<Rightarrow> 'fs state \<Rightarrow> ext_call list" where
  "calls_during s s' = drop (length (calls s)) (calls s')"

fun is_export :: "ext_call \<Rightarrow> bool" where
  "is_export (ToCsv df target index kw) = True"
| "is_export (Makedirs d ok) = False"
| "is_export (ReadCsv source kw) = False"
| "is_export (ReadSql q source) = False"

section \<open>The relational read as the specification words it\<close>

text \<open>
  Section 4.3 of the specification: the read requires a \<^verbatim>\<open>query\<close> option, then
  ``connects, executes the query, returns the result as a Table''. The database client is
  the parameter \<open>read_sql\<close>; the connection is the call \<open>ReadSql\<close>. This definition follows
  the specification's words, to be compared with \<^const>\<open>SqlReader_read\<close>, which follows
  the source.
\<close>

definition SqlReader_read_spec ::
  "(pyval \<Rightarrow> string \<Rightarrow> exc + table) \<Rightarrow> string \<Rightarrow> kwargs \<Rightarrow> 'fs state
     \<Rightarrow> (exc + table) \<times> 'fs state" where
  "SqlReader_read_spec read_sql source kw s =
     (let query = kwargs_get kw ''query'' PNone in
      if \<not> truthy query then (Inl (ValueError ''SQL read requires a 'query' argument.''), s)
      else (read_sql query source, s\<lparr>calls := calls s @ [ReadSql query source]\<rparr>))"

text \<open>A database that answers one query on one connection string.\<close>

definition shop_db :: "pyval \<Rightarrow> string \<Rightarrow> exc + table" where
  "shop_db query source =
     (if source = ''sqlite:///shop.db'' \<and> query = PStr ''SELECT 1 AS one''
      then Inr (DataFrame [(''one'', [PInt 1])])
      else Inl (LibraryError ''OperationalError'' ''no such table''))"

section \<open>Auxiliary facts\<close>




lemma ensure_directory_missing:
  assumes "os_path_dirname E target = d" and "d \<noteq> []" and "\<not> os_path_exists E d (fs s)"
    and "os_makedirs E d True (fs s) = (r, f1)"
  shows "ensure_directory E target s
           = (r, s\<lparr>stdout := stdout s @ [''Creating directory: '' @ d],
                   calls := calls s @ [Makedirs d True], fs := f1\<rparr>)"
  using assms by (simp add: ensure_directory_def py_print_def)

lemma ensure_directory_present:
  assumes "os_path_dirname E target = d" and "os_path_exists E d (fs s)"
  shows "ensure_directory E target s = (None, s)"
  using assms by (simp add: ensure_directory_def)

lemma CsvWriter_write_export:
  assumes "ensure_directory E target s = (None, s1)"
    and "to_csv E df target (kwargs_get kw ''index'' (PBool False)) (AList.delete ''index'' kw) (fs s1)
           = (r, f2)"
  shows "CsvWriter_write E df target kw s
           = ((case r of
                 Some e \<Rightarrow> Inl (OSError (''Failed to write CSV to '' @ quoted target @ '': '' @ exc_str e))
               | None \<Rightarrow> Inr ()),
              s1\<lparr>stdout := stdout s1 @ [''Writing CSV to '' @ quoted target @ ''...''],
                  calls := calls s1 @ [ToCsv df target (kwargs_get kw ''index'' (PBool False))
                                         (AList.delete ''index'' kw)],
                  fs := f2\<rparr>)"
  using assms by (simp add: CsvWriter_write_def kwargs_pop_def py_print_def split: option.splits)

lemma CsvWriter_write_step:
  assumes "ensure_directory E target s = (None, s1)"
  shows "CsvWriter_write E df target kw s
           = ((case fst (to_csv E df target (kwargs_get kw ''index'' (PBool False))
                           (AList.delete ''index'' kw) (fs s1)) of
                 Some e \<Rightarrow> Inl (OSError (''Failed to write CSV to '' @ quoted target @ '': '' @ exc_str e))
               | None \<Rightarrow> Inr ()),
              s1\<lparr>stdout := stdout s1 @ [''Writing CSV to '' @ quoted target @ ''...''],
                  calls := calls s1 @ [ToCsv df target (kwargs_get kw ''index'' (PBool False))
                                         (AList.delete ''index'' kw)],
                  fs := snd (to_csv E df target (kwargs_get kw ''index'' (PBool False))
                               (AList.delete ''index'' kw) (fs s1))\<rparr>)"
  using assms
  by (simp add: CsvWriter_write_def kwargs_pop_def py_print_def split: option.splits prod.splits)

lemma CsvWriter_write_raised:
  assumes "ensure_directory E target s = (Some e, s1)"
  shows "CsvWriter_write E df target kw s = (Inl e, s1)"
  using assms by (simp add: CsvWriter_write_def)






section \<open>Properties\<close>




text \<open>
  C2. Where the \<^verbatim>\<open>query\<close> option is absent, or present with an empty (false) value, the
  relational read raises \<^verbatim>\<open>ValueError("SQL read requires a 'query' argument.")\<close> and leaves
  the state as it was: nothing is printed, no external call is made, the file system and
  the registry are untouched.
\<close>

theorem sql_read_requires_query:
  assumes "map_of kw ''query'' = None \<or> (\<exists>v. map_of kw ''query'' = Some v \<and> \<not> truthy v)"
  shows "SqlReader_read source kw s = (Inl (ValueError ''SQL read requires a 'query' argument.''), s)"
  using assms by (auto simp: SqlReader_read_def kwargs_get_def)

theorem sql_read_requires_query_witness:
  "SqlReader_read ''postgres://fake-db'' [] (module_state empty_fs)
     = (Inl (ValueError ''SQL read requires a 'query' argument.''), module_state empty_fs) \<and>
   SqlReader_read ''postgres://fake-db'' [(''query'', PStr [])] (module_state empty_fs)
     = (Inl (ValueError ''SQL read requires a 'query' argument.''), module_state empty_fs)"
proof -
  have a: "map_of ([] :: kwargs) ''query'' = None \<or>
           (\<exists>v. map_of ([] :: kwargs) ''query'' = Some v \<and> \<not> truthy v)"
    by simp
  have b: "map_of [(''query'', PStr [])] ''query'' = None \<or>
           (\<exists>v. map_of [(''query'', PStr [])] ''query'' = Some v \<and> \<not> truthy v)"
    by simp
  from sql_read_requires_query [OF a, of "''postgres://fake-db''" "module_state empty_fs"]
    sql_read_requires_query [OF b, of "''postgres://fake-db''" "module_state empty_fs"]
  show ?thesis by simp
qed

text \<open>
  C3. Where the source path does not exist, the delimited-text read raises
  \<^verbatim>\<open>FileNotFoundError\<close> naming the path and leaves the state as it was: \<^verbatim>\<open>pd.read_csv\<close> is
  not called and nothing is printed.
\<close>

theorem csv_read_missing_file:
  assumes "\<not> os_path_exists E source (fs s)"
  shows "CsvReader_read E source kw s
           = (Inl (FileNotFoundError (''The file '' @ quoted source @ '' does not exist.'')), s)"
  using assms by (simp add: CsvReader_read_def)

theorem csv_read_missing_file_witness:
  "\<not> os_path_exists posix_env ''non_existent_ghost_file.csv'' (fs (module_state busy_fs)) \<and>
   CsvReader_read posix_env ''non_existent_ghost_file.csv'' [] (module_state busy_fs)
     = (Inl (FileNotFoundError (''The file '' @ quoted ''non_existent_ghost_file.csv'' @ '' does not exist.'')),
        module_state busy_fs)"
proof -
  have h: "\<not> os_path_exists posix_env ''non_existent_ghost_file.csv'' (fs (module_state busy_fs))"
    by code_simp
  from csv_read_missing_file [OF h, of "[]"] h show ?thesis by simp
qed

text \<open>
  C4. For a tag with no registered reader, \<^verbatim>\<open>get_reader\<close> and \<^verbatim>\<open>load_data\<close> raise
  \<^verbatim>\<open>ValueError\<close> with a message that contains the tag, and change nothing; for a tag with no
  registered writer, \<^verbatim>\<open>get_writer\<close> and \<^verbatim>\<open>save_data\<close> do the same.
\<close>

theorem unknown_format:
  "(map_of (readers s) tag = None \<longrightarrow>
      get_reader E tag s = (Inl (ValueError (''No reader registered for format: '' @ quoted tag)), s) \<and>
      load_data E source tag kw s
        = (Inl (ValueError (''No reader registered for format: '' @ quoted tag)), s) \<and>
      sublist tag (''No reader registered for format: '' @ quoted tag)) \<and>
   (map_of (writers s) tag = None \<longrightarrow>
      get_writer E tag s = (Inl (ValueError (''No writer registered for format: '' @ quoted tag)), s) \<and>
      save_data E df target tag kw s
        = (Inl (ValueError (''No writer registered for format: '' @ quoted tag)), s) \<and>
      sublist tag (''No writer registered for format: '' @ quoted tag))"
proof -
  have named: "sublist tag (p @ quoted tag)" for p
    unfolding quoted_def sublist_def
    by (rule exI [of _ "p @ [CHR 0x27]"], rule exI [of _ "[CHR 0x27]"]) simp
  show ?thesis
    by (intro conjI impI;
        (rule named | simp add: get_reader_def get_writer_def load_data_def save_data_def))
qed

theorem unknown_format_witness:
  "map_of (readers (module_state busy_fs)) ''unknown_format'' = None \<and>
   map_of (writers (module_state busy_fs)) ''unknown_format'' = None \<and>
   fst (load_data posix_env ''file.txt'' ''unknown_format'' [] (module_state busy_fs))
     = Inl (ValueError (''No reader registered for format: '' @ quoted ''unknown_format'')) \<and>
   fst (save_data posix_env sample_df ''file.txt'' ''unknown_format'' [] (module_state busy_fs))
     = Inl (ValueError (''No writer registered for format: '' @ quoted ''unknown_format''))"
proof -
  have r: "map_of (readers (module_state busy_fs)) ''unknown_format'' = None" by code_simp
  have w: "map_of (writers (module_state busy_fs)) ''unknown_format'' = None" by code_simp
  from unknown_format [of "module_state busy_fs" "''unknown_format''" posix_env "''file.txt''" "[]"
      sample_df "''file.txt''"] r w
  show ?thesis by simp
qed




text \<open>
  C6 (as amended). With a non-empty \<^verbatim>\<open>query\<close> option the relational read prints one line
  naming the source and the query and returns the fixed two-row table
  \<^verbatim>\<open>{"id": [1, 2], "name": ["Alice", "Bob"]}\<close>, whatever the source and the query; it
  makes no external call.
\<close>

theorem sql_read_returns_demo_frame:
  assumes "truthy (kwargs_get kw ''query'' PNone)"
  shows "SqlReader_read source kw s
           = (Inr demo_frame,
              s\<lparr>stdout := stdout s @
                  [''Reading from SQL DB at '' @ quoted source @ '' with query: ''
                     @ py_str (kwargs_get kw ''query'' PNone)]\<rparr>)"
  using assms by (simp add: SqlReader_read_def py_print_def)

theorem sql_read_returns_demo_frame_witness:
  "SqlReader_read ''postgres://fake-db'' [(''query'', PStr ''SELECT *'')] (module_state empty_fs)
     = (Inr (DataFrame [(''id'', [PInt 1, PInt 2]), (''name'', [PStr ''Alice'', PStr ''Bob''])]),
        (module_state empty_fs)\<lparr>stdout := [''Reading from SQL DB at 'postgres://fake-db' with query: SELECT *'']\<rparr>)"
proof -
  have h: "truthy (kwargs_get [(''query'', PStr ''SELECT *'')] ''query'' PNone)" by code_simp
  have e: "stdout (module_state empty_fs) = []" by code_simp
  from sql_read_returns_demo_frame [OF h, of "''postgres://fake-db''" "module_state empty_fs"] e
  show ?thesis by (simp add: demo_frame_def quoted_def kwargs_get_def)
qed

text \<open>
  The read does not return the query's result. Against a database that answers
  \<^verbatim>\<open>SELECT 1 AS one\<close>, the read the specification words connects and returns the one-cell
  table; the source's read makes no call and returns the fixed table.
\<close>

theorem sql_read_query_result_counterexample:
  "fst (SqlReader_read_spec shop_db ''sqlite:///shop.db'' [(''query'', PStr ''SELECT 1 AS one'')]
          (module_state empty_fs)) = Inr (DataFrame [(''one'', [PInt 1])]) \<and>
   calls (snd (SqlReader_read_spec shop_db ''sqlite:///shop.db'' [(''query'', PStr ''SELECT 1 AS one'')]
          (module_state empty_fs))) = [ReadSql (PStr ''SELECT 1 AS one'') ''sqlite:///shop.db''] \<and>
   fst (SqlReader_read ''sqlite:///shop.db'' [(''query'', PStr ''SELECT 1 AS one'')]
          (module_state empty_fs))
     = Inr (DataFrame [(''id'', [PInt 1, PInt 2]), (''name'', [PStr ''Alice'', PStr ''Bob''])]) \<and>
   calls (snd (SqlReader_read ''sqlite:///shop.db'' [(''query'', PStr ''SELECT 1 AS one'')]
          (module_state empty_fs))) = []"
  by code_simp

text \<open>
  C7 (as amended). Where the target's parent directory does not exist, and
  \<^verbatim>\<open>os.makedirs\<close> and the export do not raise, the delimited-text write succeeds, having
  called \<^verbatim>\<open>os.makedirs(directory, exist_ok=True)\<close> and then the export, in this order. A
  second write to the same path, the directory now existing, succeeds where its export
  does not raise, and makes the export call only.
\<close>

theorem csv_write_creates_parents:
  assumes "os_path_dirname E target = d" and "d \<noteq> []" and "\<not> os_path_exists E d (fs s)"
    and "os_makedirs E d True (fs s) = (None, f1)"
    and "to_csv E df target (kwargs_get kw ''index'' (PBool False)) (AList.delete ''index'' kw) f1
           = (None, f2)"
    and "os_path_exists E d f2"
    and "to_csv E df target (kwargs_get kw ''index'' (PBool False)) (AList.delete ''index'' kw) f2
           = (None, f3)"
  shows "\<exists>s1 s2.
           CsvWriter_write E df target kw s = (Inr (), s1) \<and>
           calls_during s s1
             = [Makedirs d True,
                ToCsv df target (kwargs_get kw ''index'' (PBool False)) (AList.delete ''index'' kw)] \<and>
           fs s1 = f2 \<and>
           CsvWriter_write E df target kw s1 = (Inr (), s2) \<and>
           calls_during s1 s2
             = [ToCsv df target (kwargs_get kw ''index'' (PBool False)) (AList.delete ''index'' kw)] \<and>
           fs s2 = f3"
proof -
  let ?idx = "kwargs_get kw ''index'' (PBool False)"
  let ?kw = "AList.delete ''index'' kw"
  let ?m = "s\<lparr>stdout := stdout s @ [''Creating directory: '' @ d],
               calls := calls s @ [Makedirs d True], fs := f1\<rparr>"
  let ?s1 = "?m\<lparr>stdout := stdout ?m @ [''Writing CSV to '' @ quoted target @ ''...''],
                 calls := calls ?m @ [ToCsv df target ?idx ?kw], fs := f2\<rparr>"
  let ?s2 = "?s1\<lparr>stdout := stdout ?s1 @ [''Writing CSV to '' @ quoted target @ ''...''],
                  calls := calls ?s1 @ [ToCsv df target ?idx ?kw], fs := f3\<rparr>"
  have d1: "ensure_directory E target s = (None, ?m)"
    by (rule ensure_directory_missing [OF assms(1-4)])
  have t1: "to_csv E df target ?idx ?kw (fs ?m) = (None, f2)"
    using assms(5) by simp
  have w1: "CsvWriter_write E df target kw s = (Inr (), ?s1)"
    using CsvWriter_write_export [OF d1 t1] by simp
  have d2: "ensure_directory E target ?s1 = (None, ?s1)"
    by (rule ensure_directory_present [OF assms(1)]) (simp add: assms(6))
  have t2: "to_csv E df target ?idx ?kw (fs ?s1) = (None, f3)"
    using assms(7) by simp
  have w2: "CsvWriter_write E df target kw ?s1 = (Inr (), ?s2)"
    using CsvWriter_write_export [OF d2 t2] by simp
  have c1: "calls_during s ?s1 = [Makedirs d True, ToCsv df target ?idx ?kw]"
    by (simp add: calls_during_def)
  have c2: "calls_during ?s1 ?s2 = [ToCsv df target ?idx ?kw]"
    by (simp add: calls_during_def)
  from w1 w2 c1 c2 show ?thesis by (intro exI [of _ ?s1] exI [of _ ?s2]) simp
qed

text \<open>On an empty file system the three directories above the file are created.\<close>

theorem csv_write_creates_parents_witness:
  "fst (CsvWriter_write posix_env sample_df ''deep/nested/folder/data.csv'' [] (module_state empty_fs))
     = Inr () \<and>
   dirs (fs (snd (CsvWriter_write posix_env sample_df ''deep/nested/folder/data.csv'' []
                    (module_state empty_fs))))
     = [''deep'', ''deep/nested'', ''deep/nested/folder''] \<and>
   fst (CsvWriter_write posix_env sample_df ''deep/nested/folder/data.csv'' []
          (snd (CsvWriter_write posix_env sample_df ''deep/nested/folder/data.csv'' []
                  (module_state empty_fs))))
     = Inr ()"
proof -
  let ?t = "''deep/nested/folder/data.csv''"
  let ?d = "''deep/nested/folder''"
  let ?s = "module_state empty_fs"
  let ?f1 = "snd (os_makedirs posix_env ?d True (fs ?s))"
  let ?f2 = "snd (to_csv posix_env sample_df ?t (PBool False) [] ?f1)"
  let ?f3 = "snd (to_csv posix_env sample_df ?t (PBool False) [] ?f2)"
  have i: "kwargs_get [] ''index'' (PBool False) = PBool False" "AList.delete ''index'' ([] :: kwargs) = []"
    by (simp_all add: kwargs_get_def)
  have h1: "os_path_dirname posix_env ?t = ?d" by code_simp
  have h2: "?d \<noteq> []" by simp
  have h3: "\<not> os_path_exists posix_env ?d (fs ?s)" by code_simp
  have "fst (os_makedirs posix_env ?d True (fs ?s)) = None" by code_simp
  then have h4: "os_makedirs posix_env ?d True (fs ?s) = (None, ?f1)" by (simp add: prod_eq_iff)
  have "fst (to_csv posix_env sample_df ?t (PBool False) [] ?f1) = None" by code_simp
  then have h5: "to_csv posix_env sample_df ?t (kwargs_get [] ''index'' (PBool False))
                   (AList.delete ''index'' []) ?f1 = (None, ?f2)"
    by (simp add: prod_eq_iff i)
  have h6: "os_path_exists posix_env ?d ?f2" by code_simp
  have "fst (to_csv posix_env sample_df ?t (PBool False) [] ?f2) = None" by code_simp
  then have h7: "to_csv posix_env sample_df ?t (kwargs_get [] ''index'' (PBool False))
                   (AList.delete ''index'' []) ?f2 = (None, ?f3)"
    by (simp add: prod_eq_iff i)
  have dd: "dirs ?f2 = [''deep'', ''deep/nested'', ''deep/nested/folder'']" by code_simp
  from csv_write_creates_parents [OF h1 h2 h3 h4 h5 h6 h7] dd
  show ?thesis by auto
qed

text \<open>
  The write does not succeed for every such target: where a regular file \<open>a\<close> stands in the
  way of \<open>a/b\<close>, \<^verbatim>\<open>os.makedirs\<close> raises, the write raises the same exception, and no export
  is made.
\<close>

theorem csv_write_creates_parents_counterexample:
  "posix_dirname ''a/b/c.csv'' = ''a/b'' \<and>
   \<not> posix_exists ''a/b'' busy_fs \<and>
   CsvWriter_write posix_env sample_df ''a/b/c.csv'' [] (module_state busy_fs)
     = (Inl (LibraryError ''NotADirectoryError'' (''[Errno 20] Not a directory: '' @ quoted ''a/b'')),
        (module_state busy_fs)\<lparr>stdout := [''Creating directory: a/b''],
                                 calls := [Makedirs ''a/b'' True]\<rparr>)"
  by code_simp

text \<open>
  C8. Where the directory step does not raise, the delimited-text write applies the export
  once, and its result, the file system it leaves and the call it makes are those of
  \<^verbatim>\<open>to_csv\<close> applied with \<^verbatim>\<open>index=False\<close> and the options bag as it is when the bag has no
  \<^verbatim>\<open>index\<close> key, and with the caller's value and the bag without that key when it has
  one. Where the directory step raises, the write raises the same and exports nothing.
\<close>

theorem csv_write_index_default:
  "(ensure_directory E target s = (None, s1) \<and> map_of kw ''index'' = None \<longrightarrow>
      CsvWriter_write E df target kw s
        = ((case fst (to_csv E df target (PBool False) kw (fs s1)) of
              Some e \<Rightarrow> Inl (OSError (''Failed to write CSV to '' @ quoted target @ '': '' @ exc_str e))
            | None \<Rightarrow> Inr ()),
           s1\<lparr>stdout := stdout s1 @ [''Writing CSV to '' @ quoted target @ ''...''],
               calls := calls s1 @ [ToCsv df target (PBool False) kw],
               fs := snd (to_csv E df target (PBool False) kw (fs s1))\<rparr>)) \<and>
   (ensure_directory E target s = (None, s1) \<and> map_of kw ''index'' = Some v \<longrightarrow>
      CsvWriter_write E df target kw s
        = ((case fst (to_csv E df target v (AList.delete ''index'' kw) (fs s1)) of
              Some e \<Rightarrow> Inl (OSError (''Failed to write CSV to '' @ quoted target @ '': '' @ exc_str e))
            | None \<Rightarrow> Inr ()),
           s1\<lparr>stdout := stdout s1 @ [''Writing CSV to '' @ quoted target @ ''...''],
               calls := calls s1 @ [ToCsv df target v (AList.delete ''index'' kw)],
               fs := snd (to_csv E df target v (AList.delete ''index'' kw) (fs s1))\<rparr>)) \<and>
   (ensure_directory E target s = (Some e0, s1) \<longrightarrow>
      CsvWriter_write E df target kw s = (Inl e0, s1))"
proof -
  have absent: "AList.delete ''index'' kw = kw" if "map_of kw ''index'' = None"
    using that by (simp add: map_of_eq_None_iff)
  show ?thesis
    by (intro conjI impI)
      (simp_all add: CsvWriter_write_step CsvWriter_write_raised kwargs_get_def absent)
qed

text \<open>
  In the reference environment the file written holds the table without the index column
  by default, and with it when the caller passes \<^verbatim>\<open>index=True\<close>.
\<close>

theorem csv_write_index_default_witness:
  "map_of (files (fs (snd (CsvWriter_write posix_env sample_df ''out/data.csv''
       [(''sep'', PStr '';'')] (module_state busy_fs))))) ''out/data.csv''
     = Some sample_df \<and>
   calls (snd (CsvWriter_write posix_env sample_df ''out/data.csv''
       [(''sep'', PStr '';'')] (module_state busy_fs)))
     = [ToCsv sample_df ''out/data.csv'' (PBool False) [(''sep'', PStr '';'')]] \<and>
   map_of (files (fs (snd (CsvWriter_write posix_env sample_df ''out/data.csv''
       [(''index'', PBool True), (''sep'', PStr '';'')] (module_state busy_fs))))) ''out/data.csv''
     = Some (with_index sample_df) \<and>
   calls (snd (CsvWriter_write posix_env sample_df ''out/data.csv''
       [(''index'', PBool True), (''sep'', PStr '';'')] (module_state busy_fs)))
     = [ToCsv sample_df ''out/data.csv'' (PBool True) [(''sep'', PStr '';'')]] \<and>
   fst (CsvWriter_write posix_env sample_df ''a/b/c.csv'' [(''sep'', PStr '';'')] (module_state busy_fs))
     = Inl (LibraryError ''NotADirectoryError'' (''[Errno 20] Not a directory: '' @ quoted ''a/b''))"
proof -
  let ?s = "module_state busy_fs"
  let ?kw = "[(''sep'', PStr '';'')]"
  let ?kwi = "[(''index'', PBool True), (''sep'', PStr '';'')]"
  let ?bad = "ensure_directory posix_env ''a/b/c.csv'' ?s"
  have d: "ensure_directory posix_env ''out/data.csv'' ?s = (None, ?s)"
    by (simp add: prod_eq_iff) code_simp
  have "fst ?bad = Some (LibraryError ''NotADirectoryError''
                          (''[Errno 20] Not a directory: '' @ quoted ''a/b''))"
    by code_simp
  then have n: "?bad = (Some (LibraryError ''NotADirectoryError''
                          (''[Errno 20] Not a directory: '' @ quoted ''a/b'')), snd ?bad)"
    by (simp add: prod_eq_iff)
  have a: "map_of ?kw ''index'' = None" by simp
  have b: "map_of ?kwi ''index'' = Some (PBool True)" by simp
  have del: "AList.delete ''index'' ?kwi = ?kw" by (simp add: AList.delete_eq)
  have c: "calls ?s = []" by code_simp
  have f1: "map_of (files (snd (to_csv posix_env sample_df ''out/data.csv'' (PBool False) ?kw (fs ?s))))
              ''out/data.csv'' = Some sample_df"
    by code_simp
  have f2: "map_of (files (snd (to_csv posix_env sample_df ''out/data.csv'' (PBool True) ?kw (fs ?s))))
              ''out/data.csv'' = Some (with_index sample_df)"
    by code_simp
  from csv_write_index_default [of posix_env "''out/data.csv''" ?s ?s ?kw sample_df]
    csv_write_index_default [of posix_env "''out/data.csv''" ?s ?s ?kwi sample_df "PBool True"]
    csv_write_index_default [of posix_env "''a/b/c.csv''" ?s "snd ?bad" ?kw sample_df _
      "LibraryError ''NotADirectoryError'' (''[Errno 20] Not a directory: '' @ quoted ''a/b'')"]
    d n a b del c f1 f2
  show ?thesis by simp
qed

text \<open>
  C9 (as amended). For a tag registered to one of the module's own classes, two successive
  calls of \<^verbatim>\<open>get_reader\<close> both return an instance of that class; each instance has an
  identity that was not in use before the call, so the two differ; the calls change the
  allocation counter and nothing else, so the registry holds no instance. For a tag
  registered to a caller's class, every lookup calls the class on the current state and,
  where the constructor returns an object, returns that object and the state the
  constructor left. The same for \<^verbatim>\<open>get_writer\<close>.
\<close>

theorem lookup_fresh_instance:
  "(map_of (readers s) tag = Some c \<and> (c = SqlReader \<or> c = CsvReader) \<longrightarrow>
      (\<exists>r1 s1 r2 s2.
         get_reader E tag s = (Inr r1, s1) \<and> get_reader E tag s1 = (Inr r2, s2) \<and>
         obj_id r1 \<noteq> obj_id r2 \<and> allocated s \<le> obj_id r1 \<and> allocated s1 \<le> obj_id r2 \<and>
         obj_cls r1 = c \<and> obj_cls r2 = c \<and>
         s1 = s\<lparr>allocated := Suc (allocated s)\<rparr> \<and> s2 = s1\<lparr>allocated := Suc (allocated s1)\<rparr>)) \<and>
   (map_of (readers s) tag = Some (UserReader n) \<and> user_new_reader E n s = (Inr i, s') \<longrightarrow>
      get_reader E tag s = (Inr (Object i (UserReader n)), s')) \<and>
   (map_of (writers s) tag = Some w \<and> (w = SqlWriter \<or> w = CsvWriter) \<longrightarrow>
      (\<exists>r1 s1 r2 s2.
         get_writer E tag s = (Inr r1, s1) \<and> get_writer E tag s1 = (Inr r2, s2) \<and>
         obj_id r1 \<noteq> obj_id r2 \<and> allocated s \<le> obj_id r1 \<and> allocated s1 \<le> obj_id r2 \<and>
         obj_cls r1 = w \<and> obj_cls r2 = w \<and>
         s1 = s\<lparr>allocated := Suc (allocated s)\<rparr> \<and> s2 = s1\<lparr>allocated := Suc (allocated s1)\<rparr>)) \<and>
   (map_of (writers s) tag = Some (UserWriter m) \<and> user_new_writer E m s = (Inr j, s'') \<longrightarrow>
      get_writer E tag s = (Inr (Object j (UserWriter m)), s''))"
  by (auto simp: get_reader_def get_writer_def allocate_def)

theorem lookup_fresh_instance_witness:
  "fst (get_reader posix_env ''csv'' (module_state busy_fs)) = Inr (Object 0 CsvReader) \<and>
   fst (get_reader posix_env ''csv'' (snd (get_reader posix_env ''csv'' (module_state busy_fs))))
     = Inr (Object 1 CsvReader) \<and>
   fst (get_writer posix_env ''sql'' (module_state busy_fs)) = Inr (Object 0 SqlWriter) \<and>
   fst (get_writer posix_env ''sql'' (snd (get_writer posix_env ''sql'' (module_state busy_fs))))
     = Inr (Object 1 SqlWriter) \<and>
   fst (get_reader posix_env ''json''
          (snd (register_reader ''json'' (UserReader ''JsonReader'') (module_state busy_fs))))
     = Inr (Object 0 (UserReader ''JsonReader'')) \<and>
   fst (get_writer posix_env ''json''
          (snd (register_writer ''json'' (UserWriter ''JsonWriter'') (module_state busy_fs))))
     = Inr (Object 0 (UserWriter ''JsonWriter''))"
proof -
  let ?s = "module_state busy_fs"
  let ?jr = "snd (register_reader ''json'' (UserReader ''JsonReader'') ?s)"
  let ?jw = "snd (register_writer ''json'' (UserWriter ''JsonWriter'') ?s)"
  have r: "map_of (readers ?s) ''csv'' = Some CsvReader" by code_simp
  have w: "map_of (writers ?s) ''sql'' = Some SqlWriter" by code_simp
  have a: "allocated ?s = 0" by code_simp
  have jr: "map_of (readers ?jr) ''json'' = Some (UserReader ''JsonReader'')" by code_simp
  have jw: "map_of (writers ?jw) ''json'' = Some (UserWriter ''JsonWriter'')" by code_simp
  have "fst (user_new_reader posix_env ''JsonReader'' ?jr) = Inr 0" by code_simp
  then have nr: "user_new_reader posix_env ''JsonReader'' ?jr
                   = (Inr 0, snd (user_new_reader posix_env ''JsonReader'' ?jr))"
    by (simp add: prod_eq_iff)
  have "fst (user_new_writer posix_env ''JsonWriter'' ?jw) = Inr 0" by code_simp
  then have nw: "user_new_writer posix_env ''JsonWriter'' ?jw
                   = (Inr 0, snd (user_new_writer posix_env ''JsonWriter'' ?jw))"
    by (simp add: prod_eq_iff)
  from lookup_fresh_instance [of ?s "''csv''" CsvReader posix_env _ _ _ SqlWriter] r
  have "\<exists>r1 s1 r2 s2.
         get_reader posix_env ''csv'' ?s = (Inr r1, s1) \<and> get_reader posix_env ''csv'' s1 = (Inr r2, s2) \<and>
         obj_id r1 \<noteq> obj_id r2 \<and> allocated ?s \<le> obj_id r1 \<and> allocated s1 \<le> obj_id r2 \<and>
         obj_cls r1 = CsvReader \<and> obj_cls r2 = CsvReader \<and>
         s1 = ?s\<lparr>allocated := Suc (allocated ?s)\<rparr> \<and> s2 = s1\<lparr>allocated := Suc (allocated s1)\<rparr>"
    by blast
  with r a have g1: "fst (get_reader posix_env ''csv'' ?s) = Inr (Object 0 CsvReader)"
    and g2: "fst (get_reader posix_env ''csv'' (snd (get_reader posix_env ''csv'' ?s)))
               = Inr (Object 1 CsvReader)"
    by (auto simp: get_reader_def allocate_def)
  from lookup_fresh_instance [of ?s "''sql''" _ posix_env _ _ _ SqlWriter] w
  have "\<exists>r1 s1 r2 s2.
         get_writer posix_env ''sql'' ?s = (Inr r1, s1) \<and> get_writer posix_env ''sql'' s1 = (Inr r2, s2) \<and>
         obj_id r1 \<noteq> obj_id r2 \<and> allocated ?s \<le> obj_id r1 \<and> allocated s1 \<le> obj_id r2 \<and>
         obj_cls r1 = SqlWriter \<and> obj_cls r2 = SqlWriter \<and>
         s1 = ?s\<lparr>allocated := Suc (allocated ?s)\<rparr> \<and> s2 = s1\<lparr>allocated := Suc (allocated s1)\<rparr>"
    by blast
  with w a have g3: "fst (get_writer posix_env ''sql'' ?s) = Inr (Object 0 SqlWriter)"
    and g4: "fst (get_writer posix_env ''sql'' (snd (get_writer posix_env ''sql'' ?s)))
               = Inr (Object 1 SqlWriter)"
    by (auto simp: get_writer_def allocate_def)
  from lookup_fresh_instance [of ?jr "''json''" _ posix_env "''JsonReader''" 0
      "snd (user_new_reader posix_env ''JsonReader'' ?jr)"] jr nr
  have g5: "fst (get_reader posix_env ''json'' ?jr) = Inr (Object 0 (UserReader ''JsonReader''))"
    by simp
  from lookup_fresh_instance [of ?jw "''json''" _ posix_env _ _ _ _ "''JsonWriter''" 0
      "snd (user_new_writer posix_env ''JsonWriter'' ?jw)"] jw nw
  have g6: "fst (get_writer posix_env ''json'' ?jw) = Inr (Object 0 (UserWriter ''JsonWriter''))"
    by simp
  from g1 g2 g3 g4 g5 g6 show ?thesis by simp
qed

text \<open>
  A lookup does not return a new instance for every registered class: for a class whose
  \<^verbatim>\<open>__new__\<close> hands back one shared instance two successive lookups return the same
  object, and for a class whose constructor raises the lookup returns none.
\<close>

theorem lookup_fresh_instance_counterexample:
  "fst (get_reader posix_env ''one''
          (snd (register_reader ''one'' (UserReader ''Shared'') shared_state)))
     = Inr (Object 0 (UserReader ''Shared'')) \<and>
   fst (get_reader posix_env ''one''
          (snd (get_reader posix_env ''one''
                  (snd (register_reader ''one'' (UserReader ''Shared'') shared_state)))))
     = Inr (Object 0 (UserReader ''Shared'')) \<and>
   fst (get_reader posix_env ''arg''
          (snd (register_reader ''arg'' (UserReader ''NeedsArg'') shared_state)))
     = Inl (LibraryError ''TypeError'' ''NeedsArg.__init__() missing 1 required positional argument'')"
  by code_simp

text \<open>
  C10. The relational write returns \<^verbatim>\<open>None\<close> for every table, target and options bag; it
  prints one line and changes nothing else: the registry, the allocation counter, the
  external calls and the file system are as before.
\<close>

theorem sql_write_no_effect:
  "SqlWriter_write df target kw s
     = (Inr (), s\<lparr>stdout := stdout s @
          [''Writing to SQL table '' @ quoted target @ '' (if_exists=''
             @ py_str (kwargs_get kw ''if_exists'' (PStr ''fail'')) @ '')...'']\<rparr>) \<and>
   readers (snd (SqlWriter_write df target kw s)) = readers s \<and>
   writers (snd (SqlWriter_write df target kw s)) = writers s \<and>
   allocated (snd (SqlWriter_write df target kw s)) = allocated s \<and>
   calls (snd (SqlWriter_write df target kw s)) = calls s \<and>
   fs (snd (SqlWriter_write df target kw s)) = fs s"
  by (simp add: SqlWriter_write_def py_print_def)

theorem sql_write_no_effect_witness:
  "SqlWriter_write sample_df ''users_table'' [(''if_exists'', PStr ''append'')] (module_state busy_fs)
     = (Inr (),
        (module_state busy_fs)\<lparr>stdout := [''Writing to SQL table 'users_table' (if_exists=append)...'']\<rparr>)"
proof -
  have e: "stdout (module_state busy_fs) = []" by code_simp
  from sql_write_no_effect [of sample_df "''users_table''" "[(''if_exists'', PStr ''append'')]"
      "module_state busy_fs"] e
  show ?thesis by (simp add: quoted_def kwargs_get_def)
qed

end
